theory Spec2Isabelle
  imports Main "HOL-Library.Sublist" "HOL-Library.Char_ord" "HOL-Library.List_Lexorder"
begin

section \<open>Markdown Combiner: a shallow embedding of the two variants of the tool\<close>

text \<open>
  The repository holds two variants of one command-line program:
  \<^item> \<^verbatim>\<open>src/tools/markdown-combiner/combine.ts\<close> (the denylist variant: directory entries
    with file types, exclusion by folder name and file pattern, fenced non-markdown files);
  \<^item> \<^verbatim>\<open>src/unnamed/part_000\<close> (the allowlist variant: relative path strings, selection by
    markdown extension, raw concatenation).
  Both share \<^verbatim>\<open>getArgValue\<close> and the same top-level \<^verbatim>\<open>try\<close>/\<^verbatim>\<open>catch\<close>.

  JavaScript strings are modelled as \<^typ>\<open>string\<close>, one \<^typ>\<open>char\<close> per code unit, which
  covers the strings whose code units lie below 256; strings are compared code unit by code
  unit. The symbols of the console messages that lie outside this range are written as the
  bytes of their UTF-8 encoding. The file system, the console and the exit status are
  explicit: a run takes the file system and returns the exit code, the trace of its effects
  and the file system it leaves behind.
\<close>

subsection \<open>JavaScript strings and arrays\<close>

text \<open>\<^verbatim>\<open>s.includes(t)\<close> and \<^verbatim>\<open>s.endsWith(t)\<close>.\<close>

definition js_includes :: "string \<Rightarrow> string \<Rightarrow> bool" where
  "js_includes s t = sublist t s"

definition endsWith :: "string \<Rightarrow> string \<Rightarrow> bool" where
  "endsWith s t = suffix t s"

text \<open>\<^verbatim>\<open>xs.join(sep)\<close> on an array of strings.\<close>

fun js_join :: "string \<Rightarrow> string list \<Rightarrow> string" where
  "js_join sep [] = []"
| "js_join sep [x] = x"
| "js_join sep (x # y # r) = x @ sep @ js_join sep (y # r)"

text \<open>\<^verbatim>\<open>xs.indexOf(x)\<close>: the index of the first element equal to \<open>x\<close>, or \<open>-1\<close>.\<close>

fun indexOf_from :: "'a list \<Rightarrow> 'a \<Rightarrow> int \<Rightarrow> int" where
  "indexOf_from [] x i = - 1"
| "indexOf_from (y # ys) x i = (if y = x then i else indexOf_from ys x (i + 1))"

definition indexOf :: "'a list \<Rightarrow> 'a \<Rightarrow> int" where
  "indexOf xs x = indexOf_from xs x 0"

text \<open>\<^verbatim>\<open>xs[i]\<close>: \<^verbatim>\<open>undefined\<close> (here \<open>None\<close>) outside the array.\<close>

definition js_index :: "'a list \<Rightarrow> int \<Rightarrow> 'a option" where
  "js_index xs i = (if 0 \<le> i \<and> i < int (length xs) then Some (xs ! nat i) else None)"

text \<open>\<^verbatim>\<open>v ?? d\<close>: the nullish coalescing operator.\<close>

definition nullish :: "'a option \<Rightarrow> 'a \<Rightarrow> 'a" where
  "nullish v d = (case v of None \<Rightarrow> d | Some x \<Rightarrow> x)"

text \<open>The decimal text of a length, as a template literal prints it.\<close>

fun show_nat :: "nat \<Rightarrow> string" where
  "show_nat n =
     (if n < 10 then [''0123456789'' ! n]
      else show_nat (n div 10) @ [''0123456789'' ! (n mod 10)])"

declare show_nat.simps [simp del]

subsection \<open>The argument resolver\<close>

text \<open>
  \<^verbatim>\<open>
  function getArgValue(args: string[], flag: string, defaultValue: string): string {
    const flagIndex = args.indexOf(flag);
    if (flagIndex !== -1 && flagIndex + 1 < args.length) {
      return args[flagIndex + 1] ?? defaultValue;
    }
    return defaultValue;
  }
  \<close>
\<close>

definition getArgValue :: "string list \<Rightarrow> string \<Rightarrow> string \<Rightarrow> string" where
  "getArgValue args flag defaultValue =
     (let flagIndex = indexOf args flag in
      if flagIndex \<noteq> - 1 \<and> flagIndex + 1 < int (length args)
      then nullish (js_index args (flagIndex + 1)) defaultValue
      else defaultValue)"

subsection \<open>Paths (the POSIX functions of \<^verbatim>\<open>node:path\<close>)\<close>

text \<open>
  \<^verbatim>\<open>resolve\<close> and \<^verbatim>\<open>join\<close> are library functions; they are modelled after the
  library's POSIX implementation, on the list of segments between the separators.
\<close>

fun split_on :: "char \<Rightarrow> string \<Rightarrow> string list" where
  "split_on c [] = [[]]"
| "split_on c (x # xs) =
     (if x = c then [] # split_on c xs
      else (case split_on c xs of [] \<Rightarrow> [[x]] | w # ws \<Rightarrow> (x # w) # ws))"

text \<open>
  \<^verbatim>\<open>normalizeString\<close>: empty segments and \<^verbatim>\<open>.\<close> are dropped, \<^verbatim>\<open>..\<close> removes the
  segment before it (or stays, in a relative path that climbs above its start). \<open>res\<close> is the
  stack of segments kept so far, the last one first.
\<close>

fun normalizeString :: "bool \<Rightarrow> string list \<Rightarrow> string list \<Rightarrow> string list" where
  "normalizeString allowAboveRoot res [] = rev res"
| "normalizeString allowAboveRoot res (seg # segs) =
     (if seg = [] \<or> seg = ''.'' then normalizeString allowAboveRoot res segs
      else if seg = ''..'' then
        (if res \<noteq> [] \<and> hd res \<noteq> ''..'' then normalizeString allowAboveRoot (tl res) segs
         else if allowAboveRoot then normalizeString allowAboveRoot (seg # res) segs
         else normalizeString allowAboveRoot res segs)
      else normalizeString allowAboveRoot (seg # res) segs)"

definition normalize_path :: "string \<Rightarrow> string" where
  "normalize_path path =
     (if path = [] then ''.''
      else
        (let isAbsolute = (hd path = CHR ''/'');
             trailingSeparator = (last path = CHR ''/'');
             p = js_join ''/'' (normalizeString (\<not> isAbsolute) [] (split_on CHR ''/'' path))
         in if p = [] then (if isAbsolute then ''/'' else if trailingSeparator then ''./'' else ''.'')
            else (let q = (if trailingSeparator then p @ ''/'' else p)
                  in if isAbsolute then ''/'' @ q else q)))"

text \<open>\<^verbatim>\<open>join(a, b)\<close>: the non-empty arguments, separated by a slash, normalised.\<close>

definition join :: "string \<Rightarrow> string \<Rightarrow> string" where
  "join a b =
     (if a = [] \<and> b = [] then ''.''
      else if a = [] then normalize_path b
      else if b = [] then normalize_path a
      else normalize_path (a @ ''/'' @ b))"

text \<open>
  \<^verbatim>\<open>resolve(process.cwd(), p)\<close>: the arguments are taken from the right until the path is
  absolute, the working directory of the process standing behind them; \<open>cwd\<close> is that working
  directory, which the program also passes as the first argument.
\<close>

definition resolve_step :: "string \<Rightarrow> string \<times> bool \<Rightarrow> string \<times> bool" where
  "resolve_step path acc =
     (case acc of (resolvedPath, resolvedAbsolute) \<Rightarrow>
        if resolvedAbsolute \<or> path = [] then (resolvedPath, resolvedAbsolute)
        else (path @ ''/'' @ resolvedPath, hd path = CHR ''/''))"

definition resolve :: "string \<Rightarrow> string \<Rightarrow> string" where
  "resolve cwd p =
     (case resolve_step cwd (resolve_step cwd (resolve_step p ([], False))) of
        (resolvedPath, resolvedAbsolute) \<Rightarrow>
          (let r = js_join ''/'' (normalizeString (\<not> resolvedAbsolute) [] (split_on CHR ''/'' resolvedPath))
           in if resolvedAbsolute then ''/'' @ r else if r \<noteq> [] then r else ''.''))"

subsection \<open>The platform: file system, console, exit status\<close>

text \<open>
  The file system is a list of absolute paths with what lies there, in the order in which the
  platform enumerates them (\<^verbatim>\<open>readdir\<close> promises no order), and a list of paths on which
  the platform refuses access. Symbolic links and device nodes are not modelled.
\<close>

datatype node = File string | Dir

record filesystem =
  nodes :: "(string \<times> node) list"
  denied :: "string list"

text \<open>
  What the program can throw: \<^verbatim>\<open>new Error(message)\<close> of its own, and the errors of the
  platform's calls (an error code and the path), which are instances of \<^verbatim>\<open>Error\<close> too.
\<close>

datatype error = Error string | SystemError string string

fun message :: "error \<Rightarrow> string" where
  "message (Error m) = m"
| "message (SystemError code path) = code @ '': '' @ path"

text \<open>
  The observable effects of a run, in the order in which they happen: the lines written with
  \<^verbatim>\<open>console.log\<close>, \<^verbatim>\<open>console.warn\<close> and \<^verbatim>\<open>console.error\<close>, and the calls of
  \<^verbatim>\<open>readdir\<close>, \<^verbatim>\<open>Bun.file(p).text()\<close> and \<^verbatim>\<open>Bun.write(p, content)\<close>.
\<close>

datatype event =
    Log string
  | Warn string
  | Err string
  | Readdir string
  | Read string
  | Write string string

record result =
  exit_code :: int
  trace :: "event list"
  fs_after :: filesystem

definition lookup :: "filesystem \<Rightarrow> string \<Rightarrow> node option" where
  "lookup fs p = map_of (nodes fs) p"

text \<open>\<^verbatim>\<open>await exists(p)\<close> and \<^verbatim>\<open>(await stat(p)).isDirectory()\<close>.\<close>

definition fs_exists :: "filesystem \<Rightarrow> string \<Rightarrow> bool" where
  "fs_exists fs p = (lookup fs p \<noteq> None)"

definition stat_isDirectory :: "filesystem \<Rightarrow> string \<Rightarrow> bool" where
  "stat_isDirectory fs p = (lookup fs p = Some Dir)"

text \<open>The entries beneath a directory: the paths that extend it by a separator and more.\<close>

definition dir_prefix :: "string \<Rightarrow> string" where
  "dir_prefix dir = (if dir = ''/'' then dir else dir @ ''/'')"

definition under :: "string \<Rightarrow> string \<Rightarrow> bool" where
  "under dir p = (prefix (dir_prefix dir) p \<and> p \<noteq> dir_prefix dir)"

text \<open>
  The recursive listing of a directory, as paths: every entry beneath it, in the platform's
  order. It fails when the directory or a directory beneath it cannot be opened.
\<close>

definition readdir_recursive :: "filesystem \<Rightarrow> string \<Rightarrow> error + (string \<times> node) list" where
  "readdir_recursive fs p =
     (let below = filter (\<lambda>e. under p (fst e)) (nodes fs) in
      if p \<in> set (denied fs) \<or> list_ex (\<lambda>e. snd e = Dir \<and> fst e \<in> set (denied fs)) below
      then Inl (SystemError ''EACCES'' p)
      else Inr below)"

text \<open>\<^verbatim>\<open>await Bun.file(p).text()\<close>.\<close>

definition bun_file_text :: "filesystem \<Rightarrow> string \<Rightarrow> error + string" where
  "bun_file_text fs p =
     (if p \<in> set (denied fs) then Inl (SystemError ''EACCES'' p)
      else (case lookup fs p of
              None \<Rightarrow> Inl (SystemError ''ENOENT'' p)
            | Some Dir \<Rightarrow> Inl (SystemError ''EISDIR'' p)
            | Some (File text) \<Rightarrow> Inr text))"

text \<open>
  \<^verbatim>\<open>await Bun.write(p, content)\<close>: the file is created, with the directories above it
  that are missing, or overwritten where it stands. A write that fails leaves the file system
  as it was.
\<close>

definition ancestors :: "string \<Rightarrow> string list" where
  "ancestors p = map (\<lambda>i. take i p) (filter (\<lambda>i. p ! i = CHR ''/'') [1..<length p])"

definition is_File :: "node option \<Rightarrow> bool" where
  "is_File n = (case n of Some (File text) \<Rightarrow> True | _ \<Rightarrow> False)"

definition bun_write :: "filesystem \<Rightarrow> string \<Rightarrow> string \<Rightarrow> error + filesystem" where
  "bun_write fs p content =
     (if p \<in> set (denied fs) then Inl (SystemError ''EACCES'' p)
      else if list_ex (\<lambda>a. is_File (lookup fs a)) (ancestors p) then Inl (SystemError ''ENOTDIR'' p)
      else (case lookup fs p of
              Some Dir \<Rightarrow> Inl (SystemError ''EISDIR'' p)
            | Some (File old) \<Rightarrow>
                Inr (fs\<lparr>nodes := map (\<lambda>e. if fst e = p then (p, File content) else e) (nodes fs)\<rparr>)
            | None \<Rightarrow>
                Inr (fs\<lparr>nodes := nodes fs
                       @ map (\<lambda>a. (a, Dir)) (filter (\<lambda>a. \<not> fs_exists fs a) (ancestors p))
                       @ [(p, File content)]\<rparr>)))"

text \<open>
  The default \<^verbatim>\<open>xs.sort()\<close>: a stable sort that compares the elements by their conversion
  to a string, code unit by code unit (a proper prefix first).
\<close>

definition js_sort :: "('a \<Rightarrow> string) \<Rightarrow> 'a list \<Rightarrow> 'a list" where
  "js_sort toString xs = sort_key toString xs"

subsection \<open>Directory entries and regular expressions\<close>

text \<open>
  A \<^verbatim>\<open>Dirent\<close>, as \<^verbatim>\<open>readdir(p, { recursive: true, withFileTypes: true })\<close> returns it:
  the name of the entry, the path of the directory that holds it, and its file type.
\<close>

datatype kind = RegularFile | Directory

record dirent =
  name :: string
  parentPath :: string
  kind :: kind

definition isFile :: "dirent \<Rightarrow> bool" where
  "isFile file = (kind file = RegularFile)"

text \<open>
  A \<^verbatim>\<open>Dirent\<close> has no \<^verbatim>\<open>toString\<close> of its own, so every entry converts to one and the
  same string (the one that \<^verbatim>\<open>Object.prototype.toString\<close> gives), whatever its name.
\<close>

definition dirent_toString :: "dirent \<Rightarrow> string" where
  "dirent_toString file = ''[object Object]''"

definition basename :: "string \<Rightarrow> string" where
  "basename p = last (split_on CHR ''/'' p)"

definition dirname :: "string \<Rightarrow> string" where
  "dirname p =
     (let d = take (length p - length (basename p) - 1) p in if d = [] then ''/'' else d)"

definition dirent_of :: "string \<times> node \<Rightarrow> dirent" where
  "dirent_of e =
     \<lparr>name = basename (fst e), parentPath = dirname (fst e),
      kind = (case snd e of File text \<Rightarrow> RegularFile | Dir \<Rightarrow> Directory)\<rparr>"

definition readdir_withFileTypes :: "filesystem \<Rightarrow> string \<Rightarrow> error + dirent list" where
  "readdir_withFileTypes fs p = map_sum id (map dirent_of) (readdir_recursive fs p)"

text \<open>
  \<^verbatim>\<open>readdir(p, { recursive: true })\<close> returns the entries (files and directories alike) as
  paths relative to \<open>p\<close>.
\<close>

definition relative_to :: "string \<Rightarrow> string \<Rightarrow> string" where
  "relative_to dir p = drop (length (dir_prefix dir)) p"

definition readdir_strings :: "filesystem \<Rightarrow> string \<Rightarrow> error + string list" where
  "readdir_strings fs p = map_sum id (map (\<lambda>e. relative_to p (fst e))) (readdir_recursive fs p)"

text \<open>
  \<^verbatim>\<open>s.replace(pat, rep)\<close> with a string pattern: the first occurrence only.
\<close>

fun js_replace :: "string \<Rightarrow> string \<Rightarrow> string \<Rightarrow> string" where
  "js_replace [] pat rep = (if pat = [] then rep else [])"
| "js_replace (c # s) pat rep =
     (if prefix pat (c # s) then rep @ drop (length pat) (c # s) else c # js_replace s pat rep)"

text \<open>
  \<^verbatim>\<open>new RegExp(source)\<close>, for the syntax that the program's patterns use: a character that
  stands for itself, \<^verbatim>\<open>.\<close> for any character but a line terminator, and \<^verbatim>\<open>*\<close> after
  either for any number of repetitions.
\<close>

datatype re_atom = AnyChar | Lit char

datatype re_item = Once re_atom | Star re_atom

definition re_atom_of :: "char \<Rightarrow> re_atom" where
  "re_atom_of c = (if c = CHR ''.'' then AnyChar else Lit c)"

fun RegExp :: "string \<Rightarrow> re_item list" where
  "RegExp [] = []"
| "RegExp [c] = [Once (re_atom_of c)]"
| "RegExp (c # d # r) =
     (if d = CHR ''*'' then Star (re_atom_of c) # RegExp r
      else Once (re_atom_of c) # RegExp (d # r))"

fun atom_accepts :: "re_atom \<Rightarrow> char \<Rightarrow> bool" where
  "atom_accepts AnyChar c = (c \<noteq> CHR 0x0A \<and> c \<noteq> CHR 0x0D)"
| "atom_accepts (Lit a) c = (c = a)"

text \<open>Whether the expression matches at the start of the string (some prefix of it).\<close>

fun match_here :: "re_item list \<Rightarrow> string \<Rightarrow> bool" where
  "match_here [] s = True"
| "match_here (Once a # r) [] = False"
| "match_here (Once a # r) (c # s) = (atom_accepts a c \<and> match_here r s)"
| "match_here (Star a # r) [] = match_here r []"
| "match_here (Star a # r) (c # s) =
     (match_here r (c # s) \<or> (atom_accepts a c \<and> match_here (Star a # r) s))"

text \<open>
  \<^verbatim>\<open>s.match(re)\<close> as a condition: the expression carries no anchor, so a match may start
  anywhere in the string.
\<close>

fun js_match :: "string \<Rightarrow> re_item list \<Rightarrow> bool" where
  "js_match [] re = match_here re []"
| "js_match (c # s) re = (match_here re (c # s) \<or> js_match s re)"

subsection \<open>What both variants print\<close>

definition msg_searching :: "string \<Rightarrow> string" where
  "msg_searching sourcePath =
     [CHR 0xF0, CHR 0x9F, CHR 0x94, CHR 0x8D] @ '' Searching for Markdown files in '' @ [CHR 0x27]
       @ sourcePath @ [CHR 0x27] @ ''...''"

definition msg_no_files :: "string \<Rightarrow> string" where
  "msg_no_files sourcePath =
     [CHR 0xE2, CHR 0x9A, CHR 0xA0, CHR 0xEF, CHR 0xB8, CHR 0x8F] @ '' No Markdown files found in ''
       @ [CHR 0x27] @ sourcePath @ [CHR 0x27] @ ''. Exiting.''"

definition msg_found :: "nat \<Rightarrow> string" where
  "msg_found n =
     [CHR 0xF0, CHR 0x9F, CHR 0x93, CHR 0x9A] @ '' Found '' @ show_nat n @ '' files to combine.''"

definition msg_combining :: "string \<Rightarrow> string" where
  "msg_combining path = ''   '' @ [CHR 0xE2, CHR 0x86, CHR 0xB3] @ '' Combining: '' @ path"

definition msg_success :: "string \<Rightarrow> string" where
  "msg_success outputPath =
     ''\<newline>'' @ [CHR 0xE2, CHR 0x9C, CHR 0x85] @ '' Successfully combined all files into ''
       @ [CHR 0x27] @ outputPath @ [CHR 0x27] @ ''!''"

definition msg_error :: "error \<Rightarrow> string" where
  "msg_error e = ''\<newline>'' @ [CHR 0xE2, CHR 0x9D, CHR 0x8C] @ '' An error occurred: '' @ message e"

definition title :: string where
  "title = ''# Combined Documentation\<newline>''"

definition separator :: "string \<Rightarrow> string" where
  "separator path = ''\<newline>---\<newline>## Source: '' @ path @ ''\<newline>---\<newline>''"

text \<open>The fenced block of \<^verbatim>\<open>combine.ts\<close>: three backquotes, the content, three backquotes.\<close>

definition fence :: "string \<Rightarrow> string" where
  "fence fileContent =
     replicate 3 (CHR 0x60) @ ''\<newline>'' @ fileContent @ ''\<newline>'' @ replicate 3 (CHR 0x60)"

text \<open>
  \<^verbatim>\<open>sourcePath\<close> and \<^verbatim>\<open>outputPath\<close>, from \<^verbatim>\<open>Bun.argv\<close> and \<^verbatim>\<open>process.cwd()\<close>:
  \<^verbatim>\<open>
  const srcDir = getArgValue(args, '--src', '.');
  const outFile = getArgValue(args, '--out', './combined.md');
  const sourcePath = resolve(process.cwd(), srcDir);
  const outputPath = resolve(process.cwd(), outFile);
  \<close>
\<close>

definition sourcePath_of :: "string list \<Rightarrow> string \<Rightarrow> string" where
  "sourcePath_of args cwd = resolve cwd (getArgValue args ''--src'' ''.'')"

definition outputPath_of :: "string list \<Rightarrow> string \<Rightarrow> string" where
  "outputPath_of args cwd = resolve cwd (getArgValue args ''--out'' ''./combined.md'')"

text \<open>
  The body of the \<^verbatim>\<open>try\<close> block yields the effects so far, the file system as it then
  is, and the error it threw, if any. The \<^verbatim>\<open>catch\<close> block reports the error and exits
  with status 1; a run that does not throw ends with status 0. Everything the model throws is
  an instance of \<^verbatim>\<open>Error\<close>, so the handler's branch for other values is never taken.
\<close>

definition finish :: "event list \<times> filesystem \<times> error option \<Rightarrow> result" where
  "finish r =
     (case r of
        (evs, fs', Some e) \<Rightarrow> \<lparr>exit_code = 1, trace = evs @ [Err (msg_error e)], fs_after = fs'\<rparr>
      | (evs, fs', None) \<Rightarrow> \<lparr>exit_code = 0, trace = evs, fs_after = fs'\<rparr>)"

subsection \<open>The denylist variant: \<^verbatim>\<open>src/tools/markdown-combiner/combine.ts\<close>\<close>

definition excludeFolders :: "string list" where
  "excludeFolders = [''.git'', ''tmp'', ''node_modules'', ''dist'', ''build'']"

definition excludeFiles :: "string list" where
  "excludeFiles =
     [''*.DS_Store'', ''*.log'', ''*.tmp'', ''package-lock.json'', ''yarn.lock'', ''bun.lockb'']"

text \<open>
  \<^verbatim>\<open>
  const files = allFiles
    .filter((file) => {
      const isExcludedFolder = excludeFolders.some((folder) => file.parentPath.includes(folder));
      const isExcludedFile = excludeFiles.some((pattern) =>
        file.name.match(new RegExp(pattern.replace('*', '.*'))));
      return !isExcludedFolder && !isExcludedFile && file.isFile();
    })
    .sort();
  \<close>
\<close>

definition isExcludedFolder :: "dirent \<Rightarrow> bool" where
  "isExcludedFolder file = list_ex (\<lambda>folder. js_includes (parentPath file) folder) excludeFolders"

definition isExcludedFile :: "dirent \<Rightarrow> bool" where
  "isExcludedFile file =
     list_ex (\<lambda>pattern. js_match (name file) (RegExp (js_replace pattern ''*'' ''.*''))) excludeFiles"

definition keep :: "dirent \<Rightarrow> bool" where
  "keep file = (\<not> isExcludedFolder file \<and> \<not> isExcludedFile file \<and> isFile file)"

definition files :: "dirent list \<Rightarrow> dirent list" where
  "files allFiles = js_sort dirent_toString (filter keep allFiles)"

text \<open>
  \<^verbatim>\<open>
  for (const fileInfo of files) {
    const fullPath = join(fileInfo.parentPath, fileInfo.name);
    console.log(`   (arrow) Combining: ${fullPath}`);
    const separator = `\n---\n## Source: ${fullPath}\n---\n`;
    const fileContent = await Bun.file(fullPath).text();
    if (!fileInfo.name.endsWith('.md')) {
      combinedContent.push(separator, `(fence)\n${fileContent}\n(fence)`);
    } else {
      combinedContent.push(separator, fileContent);
    }
  }
  \<close>
  (\<^verbatim>\<open>(arrow)\<close> and \<^verbatim>\<open>(fence)\<close> stand for the arrow symbol and the three backquotes of the
  source.) \<open>combinedContent\<close> starts as the array that holds the title
  \<^verbatim>\<open>`# Combined Documentation\n`\<close>. The loop stops at the first read that throws.
\<close>

fun combine_ts_loop ::
  "filesystem \<Rightarrow> dirent list \<Rightarrow> string list \<Rightarrow> event list \<times> (error + string list)" where
  "combine_ts_loop fs [] combinedContent = ([], Inr combinedContent)"
| "combine_ts_loop fs (fileInfo # rest) combinedContent =
     (let fullPath = join (parentPath fileInfo) (name fileInfo);
          evs = [Log (msg_combining fullPath), Read fullPath]
      in case bun_file_text fs fullPath of
           Inl e \<Rightarrow> (evs, Inl e)
         | Inr fileContent \<Rightarrow>
             (case combine_ts_loop fs rest
                     (if \<not> endsWith (name fileInfo) ''.md''
                      then combinedContent @ [separator fullPath, fence fileContent]
                      else combinedContent @ [separator fullPath, fileContent]) of
                (evs', r) \<Rightarrow> (evs @ evs', r)))"

definition combine_ts_run ::
  "string \<Rightarrow> string \<Rightarrow> filesystem \<Rightarrow> event list \<times> filesystem \<times> error option" where
  "combine_ts_run sourcePath outputPath fs =
     (if \<not> fs_exists fs sourcePath
      then ([Log (msg_searching sourcePath)], fs,
            Some (Error (''Source directory not found: '' @ sourcePath)))
      else if \<not> stat_isDirectory fs sourcePath
      then ([Log (msg_searching sourcePath)], fs,
            Some (Error (''Source path is not a directory: '' @ sourcePath)))
      else (case readdir_withFileTypes fs sourcePath of
              Inl e \<Rightarrow> ([Log (msg_searching sourcePath), Readdir sourcePath], fs, Some e)
            | Inr allFiles \<Rightarrow>
                if length (files allFiles) = 0
                then ([Log (msg_searching sourcePath), Readdir sourcePath, Warn (msg_no_files sourcePath)], fs, None)
                else (case combine_ts_loop fs (files allFiles) [title] of
                        (evs, Inl e) \<Rightarrow>
                          ([Log (msg_searching sourcePath), Readdir sourcePath,
                            Log (msg_found (length (files allFiles)))]
                             @ evs, fs, Some e)
                      | (evs, Inr combinedContent) \<Rightarrow>
                          (case bun_write fs outputPath (js_join ''\<newline>'' combinedContent) of
                             Inl e \<Rightarrow>
                               ([Log (msg_searching sourcePath), Readdir sourcePath,
                                 Log (msg_found (length (files allFiles)))]
                                  @ evs @ [Write outputPath (js_join ''\<newline>'' combinedContent)],
                                fs, Some e)
                           | Inr fs' \<Rightarrow>
                               ([Log (msg_searching sourcePath), Readdir sourcePath,
                                 Log (msg_found (length (files allFiles)))]
                                  @ evs @ [Write outputPath (js_join ''\<newline>'' combinedContent),
                                           Log (msg_success outputPath)],
                                fs', None)))))"

text \<open>
  The whole program: \<open>args\<close> is \<^verbatim>\<open>Bun.argv\<close>, \<open>cwd\<close> is \<^verbatim>\<open>process.cwd()\<close>.
\<close>

definition combine_ts_main :: "string list \<Rightarrow> string \<Rightarrow> filesystem \<Rightarrow> result" where
  "combine_ts_main args cwd fs =
     finish (combine_ts_run (sourcePath_of args cwd) (outputPath_of args cwd) fs)"

subsection \<open>The allowlist variant: \<^verbatim>\<open>src/unnamed/part_000\<close>\<close>

text \<open>
  \<^verbatim>\<open>
  const markdownFiles = allFiles
    .filter((file): file is string => typeof file === 'string' &&
       (file.endsWith('.md') || file.endsWith('.mdx') || file.endsWith('.markdown')))
    .sort(); // Sort for predictable order
  \<close>
  Without \<^verbatim>\<open>withFileTypes\<close> the listing holds strings only, so the \<^verbatim>\<open>typeof\<close> test is
  always true.
\<close>

definition markdownFiles :: "string list \<Rightarrow> string list" where
  "markdownFiles allFiles =
     js_sort (\<lambda>file. file)
       (filter (\<lambda>file. endsWith file ''.md'' \<or> endsWith file ''.mdx'' \<or> endsWith file ''.markdown'')
          allFiles)"

text \<open>
  \<^verbatim>\<open>
  for (const relativePath of markdownFiles) {
    console.log(`   (arrow) Combining: ${relativePath}`);
    const fullPath = join(sourcePath, relativePath);
    const separator = `\n---\n## Source: ${relativePath}\n---\n`;
    const fileContent = await Bun.file(fullPath).text();
    combinedContent.push(separator, fileContent);
  }
  \<close>
\<close>

fun part_000_loop ::
  "filesystem \<Rightarrow> string \<Rightarrow> string list \<Rightarrow> string list \<Rightarrow> event list \<times> (error + string list)" where
  "part_000_loop fs sourcePath [] combinedContent = ([], Inr combinedContent)"
| "part_000_loop fs sourcePath (relativePath # rest) combinedContent =
     (let fullPath = join sourcePath relativePath;
          evs = [Log (msg_combining relativePath), Read fullPath]
      in case bun_file_text fs fullPath of
           Inl e \<Rightarrow> (evs, Inl e)
         | Inr fileContent \<Rightarrow>
             (case part_000_loop fs sourcePath rest
                     (combinedContent @ [separator relativePath, fileContent]) of
                (evs', r) \<Rightarrow> (evs @ evs', r)))"

definition part_000_run ::
  "string \<Rightarrow> string \<Rightarrow> filesystem \<Rightarrow> event list \<times> filesystem \<times> error option" where
  "part_000_run sourcePath outputPath fs =
     (if \<not> fs_exists fs sourcePath
      then ([Log (msg_searching sourcePath)], fs,
            Some (Error (''Source directory not found: '' @ sourcePath)))
      else if \<not> stat_isDirectory fs sourcePath
      then ([Log (msg_searching sourcePath)], fs,
            Some (Error (''Source path is not a directory: '' @ sourcePath)))
      else (case readdir_strings fs sourcePath of
              Inl e \<Rightarrow> ([Log (msg_searching sourcePath), Readdir sourcePath], fs, Some e)
            | Inr allFiles \<Rightarrow>
                if length (markdownFiles allFiles) = 0
                then ([Log (msg_searching sourcePath), Readdir sourcePath, Warn (msg_no_files sourcePath)], fs, None)
                else (case part_000_loop fs sourcePath (markdownFiles allFiles) [title] of
                        (evs, Inl e) \<Rightarrow>
                          ([Log (msg_searching sourcePath), Readdir sourcePath,
                            Log (msg_found (length (markdownFiles allFiles)))]
                             @ evs, fs, Some e)
                      | (evs, Inr combinedContent) \<Rightarrow>
                          (case bun_write fs outputPath (js_join ''\<newline>'' combinedContent) of
                             Inl e \<Rightarrow>
                               ([Log (msg_searching sourcePath), Readdir sourcePath,
                                 Log (msg_found (length (markdownFiles allFiles)))]
                                  @ evs @ [Write outputPath (js_join ''\<newline>'' combinedContent)],
                                fs, Some e)
                           | Inr fs' \<Rightarrow>
                               ([Log (msg_searching sourcePath), Readdir sourcePath,
                                 Log (msg_found (length (markdownFiles allFiles)))]
                                  @ evs @ [Write outputPath (js_join ''\<newline>'' combinedContent),
                                           Log (msg_success outputPath)],
                                fs', None)))))"

definition part_000_main :: "string list \<Rightarrow> string \<Rightarrow> filesystem \<Rightarrow> result" where
  "part_000_main args cwd fs =
     finish (part_000_run (sourcePath_of args cwd) (outputPath_of args cwd) fs)"

subsection \<open>Notions used to state the properties\<close>

definition is_Write :: "event \<Rightarrow> bool" where
  "is_Write e = (case e of Write p content \<Rightarrow> True | _ \<Rightarrow> False)"

definition is_Read :: "event \<Rightarrow> bool" where
  "is_Read e = (case e of Read p \<Rightarrow> True | _ \<Rightarrow> False)"

text \<open>Whether a file can be read as text, and the text that is read.\<close>

definition readable :: "filesystem \<Rightarrow> string \<Rightarrow> bool" where
  "readable fs p = (case bun_file_text fs p of Inl e \<Rightarrow> False | Inr text \<Rightarrow> True)"

definition text_of :: "filesystem \<Rightarrow> string \<Rightarrow> string" where
  "text_of fs p = (case bun_file_text fs p of Inl e \<Rightarrow> [] | Inr text \<Rightarrow> text)"

text \<open>The path under which \<^verbatim>\<open>combine.ts\<close> reads and labels a candidate.\<close>

definition fullPath :: "dirent \<Rightarrow> string" where
  "fullPath fileInfo = join (parentPath fileInfo) (name fileInfo)"

text \<open>
  The combined document in the words of the specification: the title line, then for each
  candidate in order its separator block and its content, all joined by newlines. A block is
  given by the label of the file and the content emitted for it.
\<close>

definition spec_document :: "(string \<times> string) list \<Rightarrow> string" where
  "spec_document blocks =
     js_join ''\<newline>'' (title # concat (map (\<lambda>b. [separator (fst b), snd b]) blocks))"

text \<open>
  The blocks of the uniform variant (the content as it is) and of the mixed variant (the
  content as it is for a name that ends in \<^verbatim>\<open>.md\<close>, in a fenced block otherwise).
\<close>

definition uniform_blocks :: "filesystem \<Rightarrow> string \<Rightarrow> string list \<Rightarrow> (string \<times> string) list" where
  "uniform_blocks fs sourcePath candidates =
     map (\<lambda>relativePath. (relativePath, text_of fs (join sourcePath relativePath))) candidates"

definition mixed_body :: "filesystem \<Rightarrow> dirent \<Rightarrow> string" where
  "mixed_body fs fileInfo =
     (if endsWith (name fileInfo) ''.md'' then text_of fs (fullPath fileInfo)
      else fence (text_of fs (fullPath fileInfo)))"

definition mixed_blocks :: "filesystem \<Rightarrow> dirent list \<Rightarrow> (string \<times> string) list" where
  "mixed_blocks fs candidates = map (\<lambda>fileInfo. (fullPath fileInfo, mixed_body fs fileInfo)) candidates"

text \<open>The blocks with every content as it is, whatever the name of the file.\<close>

definition raw_blocks :: "filesystem \<Rightarrow> dirent list \<Rightarrow> (string \<times> string) list" where
  "raw_blocks fs candidates =
     map (\<lambda>fileInfo. (fullPath fileInfo, text_of fs (fullPath fileInfo))) candidates"

subsection \<open>The exclusion rule in the words of the specification\<close>

text \<open>
  A glob-like pattern matches a whole filename, \<^verbatim>\<open>*\<close> standing for zero or more characters
  and every other character for itself. An entry is excluded when its parent path contains a
  folder name, when its filename matches a pattern, or when it is not a regular file.
\<close>

fun glob_match :: "string \<Rightarrow> string \<Rightarrow> bool" where
  "glob_match [] [] = True"
| "glob_match [] (c # s) = False"
| "glob_match (p # ps) [] = (p = CHR ''*'' \<and> glob_match ps [])"
| "glob_match (p # ps) (c # s) =
     (if p = CHR ''*'' then glob_match ps (c # s) \<or> glob_match (p # ps) s
      else p = c \<and> glob_match ps s)"

definition spec_excluded :: "dirent \<Rightarrow> bool" where
  "spec_excluded file =
     (list_ex (\<lambda>folder. js_includes (parentPath file) folder) excludeFolders \<or>
      list_ex (\<lambda>pattern. glob_match pattern (name file)) excludeFiles \<or>
      \<not> isFile file)"

subsection \<open>Well-formed file systems\<close>




subsection \<open>Sample file systems\<close>

text \<open>
  A directory \<^verbatim>\<open>/w\<close> with the files \<^verbatim>\<open>a.md\<close>, \<^verbatim>\<open>b.txt\<close> and \<^verbatim>\<open>z.md\<close>, which the
  platform lists in the order \<^verbatim>\<open>z.md\<close>, \<^verbatim>\<open>a.md\<close>, \<^verbatim>\<open>b.txt\<close>.
\<close>

definition example_tree :: filesystem where
  "example_tree =
     \<lparr>nodes = [(''/w'', Dir), (''/w/z.md'', File ''Z''), (''/w/a.md'', File ''A''),
               (''/w/b.txt'', File ''B'')],
      denied = []\<rparr>"

text \<open>A directory whose entries are all excluded by \<^verbatim>\<open>combine.ts\<close>, and one without markdown files.\<close>

definition excluded_tree :: filesystem where
  "excluded_tree =
     \<lparr>nodes = [(''/w'', Dir), (''/w/dist'', Dir), (''/w/dist/notes.md'', File ''N''),
               (''/w/yarn.lock'', File ''Y'')],
      denied = []\<rparr>"

definition no_markdown_tree :: filesystem where
  "no_markdown_tree =
     \<lparr>nodes = [(''/w'', Dir), (''/w/b.txt'', File ''B'')], denied = []\<rparr>"



text \<open>A directory that holds one regular file, \<^verbatim>\<open>my.logbook.txt\<close>.\<close>

definition logbook_tree :: filesystem where
  "logbook_tree =
     \<lparr>nodes = [(''/w'', Dir), (''/w/my.logbook.txt'', File ''L'')], denied = []\<rparr>"

text \<open>A directory that holds a markdown file and a directory whose name ends in \<^verbatim>\<open>.md\<close>.\<close>

definition notes_tree :: filesystem where
  "notes_tree =
     \<lparr>nodes = [(''/w'', Dir), (''/w/a.md'', File ''A''), (''/w/notes.md'', Dir),
               (''/w/notes.md/x.txt'', File ''X'')],
      denied = []\<rparr>"

section \<open>Properties\<close>

subsection \<open>Arrays\<close>

lemma indexOf_from_absent: "x \<notin> set xs \<Longrightarrow> indexOf_from xs x i = - 1"
  by (induction xs arbitrary: i) auto

lemma indexOf_from_first:
  "x \<notin> set pre \<Longrightarrow> indexOf_from (pre @ x # post) x i = i + int (length pre)"
  by (induction pre arbitrary: i) auto

lemma indexOf_absent: "x \<notin> set xs \<Longrightarrow> indexOf xs x = - 1"
  by (simp add: indexOf_def indexOf_from_absent)

lemma indexOf_first: "x \<notin> set pre \<Longrightarrow> indexOf (pre @ x # post) x = int (length pre)"
  by (simp add: indexOf_def indexOf_from_first)

subsection \<open>The argument resolver\<close>

lemma getArgValue_absent: "flag \<notin> set args \<Longrightarrow> getArgValue args flag d = d"
  by (simp add: getArgValue_def indexOf_absent)

lemma getArgValue_follows:
  assumes "flag \<notin> set pre"
  shows "getArgValue (pre @ flag # v # post) flag d = v"
proof -
  have "indexOf (pre @ flag # v # post) flag = int (length pre)"
    using assms by (rule indexOf_first)
  moreover have "nat (int (length pre) + 1) = Suc (length pre)"
    by simp
  ultimately show ?thesis
    by (simp add: getArgValue_def js_index_def nullish_def nth_append del: of_nat_Suc)
qed

lemma getArgValue_last:
  assumes "flag \<notin> set pre"
  shows "getArgValue (pre @ [flag]) flag d = d"
proof -
  have "indexOf (pre @ [flag]) flag = int (length pre)"
    using assms by (rule indexOf_first)
  then show ?thesis
    by (simp add: getArgValue_def)
qed

text \<open>
  Claim C8. The argument resolver returns the token that follows the first occurrence of the
  flag, whatever that token is (no validation: \<open>v\<close> is arbitrary below), and returns the
  default when the flag does not occur or when its first occurrence is the last token. The
  three cases cover every argument vector. The resolver is a pure function of its three
  arguments: it has no effect on any state.
\<close>

theorem getArgValue_contract:
  "(flag \<notin> set args \<longrightarrow> getArgValue args flag d = d) \<and>
   (\<forall>pre v post. args = pre @ flag # v # post \<and> flag \<notin> set pre \<longrightarrow>
      getArgValue args flag d = v) \<and>
   (\<forall>pre. args = pre @ [flag] \<and> flag \<notin> set pre \<longrightarrow> getArgValue args flag d = d)"
  using getArgValue_absent getArgValue_follows getArgValue_last by blast

theorem getArgValue_contract_witness:
  "getArgValue [''bun'', ''combine.ts'', ''--out'', ''x.md''] ''--src'' ''.'' = ''.'' \<and>
   getArgValue [''bun'', ''--src'', ''--out'', ''--src'', ''docs''] ''--src'' ''.'' = ''--out'' \<and>
   getArgValue [''bun'', ''combine.ts'', ''--src''] ''--src'' ''.'' = ''.''"
proof -
  have a: "''--src'' \<notin> set [''bun'', ''combine.ts'', ''--out'', ''x.md'']" by simp
  have b: "[''bun'', ''--src'', ''--out'', ''--src'', ''docs'']
            = [''bun''] @ ''--src'' # ''--out'' # [''--src'', ''docs''] \<and> ''--src'' \<notin> set [''bun'']"
    by simp
  have c: "[''bun'', ''combine.ts'', ''--src''] = [''bun'', ''combine.ts''] @ [''--src'']
            \<and> ''--src'' \<notin> set [''bun'', ''combine.ts'']"
    by simp
  from getArgValue_contract
    [of "''--src''" "[''bun'', ''combine.ts'', ''--out'', ''x.md'']" "''.''"] a
  have 1: "getArgValue [''bun'', ''combine.ts'', ''--out'', ''x.md''] ''--src'' ''.'' = ''.''"
    by blast
  from getArgValue_contract
    [of "''--src''" "[''bun'', ''--src'', ''--out'', ''--src'', ''docs'']" "''.''"] b
  have 2: "getArgValue [''bun'', ''--src'', ''--out'', ''--src'', ''docs''] ''--src'' ''.'' = ''--out''"
    by blast
  from getArgValue_contract
    [of "''--src''" "[''bun'', ''combine.ts'', ''--src'']" "''.''"] c
  have 3: "getArgValue [''bun'', ''combine.ts'', ''--src''] ''--src'' ''.'' = ''.''"
    by blast
  from 1 2 3 show ?thesis by blast
qed

subsection \<open>The loops\<close>

lemma combine_ts_loop_ok:
  "list_all (\<lambda>f. readable fs (fullPath f)) fl \<Longrightarrow>
   combine_ts_loop fs fl acc =
     (concat (map (\<lambda>f. [Log (msg_combining (fullPath f)), Read (fullPath f)]) fl),
      Inr (acc @ concat (map (\<lambda>b. [separator (fst b), snd b]) (mixed_blocks fs fl))))"
proof (induction fl arbitrary: acc)
  case Nil
  then show ?case by (simp add: mixed_blocks_def)
next
  case (Cons f fl)
  from Cons.prems obtain t where t: "bun_file_text fs (fullPath f) = Inr t"
    by (auto simp: readable_def split: sum.splits)
  from Cons.prems have rest: "list_all (\<lambda>f. readable fs (fullPath f)) fl" by simp
  show ?case
    using t Cons.IH [OF rest]
    by (simp add: mixed_blocks_def mixed_body_def text_of_def fullPath_def Let_def)
qed


lemma part_000_loop_ok:
  "list_all (\<lambda>p. readable fs (join src p)) cands \<Longrightarrow>
   part_000_loop fs src cands acc =
     (concat (map (\<lambda>p. [Log (msg_combining p), Read (join src p)]) cands),
      Inr (acc @ concat (map (\<lambda>b. [separator (fst b), snd b]) (uniform_blocks fs src cands))))"
proof (induction cands arbitrary: acc)
  case Nil
  then show ?case by (simp add: uniform_blocks_def)
next
  case (Cons p cands)
  from Cons.prems obtain t where t: "bun_file_text fs (join src p) = Inr t"
    by (auto simp: readable_def split: sum.splits)
  from Cons.prems have rest: "list_all (\<lambda>p. readable fs (join src p)) cands" by simp
  show ?case
    using t Cons.IH [OF rest]
    by (simp add: uniform_blocks_def text_of_def Let_def)
qed


lemma reads_no_write:
  "filter is_Write (concat (map (\<lambda>f. [Log (a f), Read (b f)]) fl)) = []"
  by (induction fl) (simp_all add: is_Write_def)

lemma spec_document_unfold:
  "js_join ''\<newline>'' (title # concat (map (\<lambda>b. [separator (fst b), snd b]) blocks)) = spec_document blocks"
  by (simp add: spec_document_def)

subsection \<open>The runs, case by case\<close>

lemma combine_ts_run_not_found:
  "\<not> fs_exists fs src \<Longrightarrow>
   combine_ts_run src out fs =
     ([Log (msg_searching src)], fs, Some (Error (''Source directory not found: '' @ src)))"
  by (simp add: combine_ts_run_def)

lemma combine_ts_run_not_dir:
  "fs_exists fs src \<Longrightarrow> \<not> stat_isDirectory fs src \<Longrightarrow>
   combine_ts_run src out fs =
     ([Log (msg_searching src)], fs, Some (Error (''Source path is not a directory: '' @ src)))"
  by (simp add: combine_ts_run_def)


lemma combine_ts_run_no_files:
  "fs_exists fs src \<Longrightarrow> stat_isDirectory fs src \<Longrightarrow> readdir_withFileTypes fs src = Inr allFiles \<Longrightarrow>
   files allFiles = [] \<Longrightarrow>
   combine_ts_run src out fs =
     ([Log (msg_searching src), Readdir src, Warn (msg_no_files src)], fs, None)"
  by (simp add: combine_ts_run_def)


lemma combine_ts_run_write_fails:
  assumes "fs_exists fs src" "stat_isDirectory fs src" "readdir_withFileTypes fs src = Inr allFiles"
    and "files allFiles \<noteq> []"
    and "list_all (\<lambda>f. readable fs (fullPath f)) (files allFiles)"
    and "bun_write fs out (spec_document (mixed_blocks fs (files allFiles))) = Inl e"
  shows "combine_ts_run src out fs =
           ([Log (msg_searching src), Readdir src, Log (msg_found (length (files allFiles)))]
              @ concat (map (\<lambda>f. [Log (msg_combining (fullPath f)), Read (fullPath f)]) (files allFiles))
              @ [Write out (spec_document (mixed_blocks fs (files allFiles)))],
            fs, Some e)"
  using assms(1-4,6)
  by (simp add: combine_ts_run_def combine_ts_loop_ok [OF assms(5)] spec_document_unfold)

lemma combine_ts_run_written:
  assumes "fs_exists fs src" "stat_isDirectory fs src" "readdir_withFileTypes fs src = Inr allFiles"
    and "files allFiles \<noteq> []"
    and "list_all (\<lambda>f. readable fs (fullPath f)) (files allFiles)"
    and "bun_write fs out (spec_document (mixed_blocks fs (files allFiles))) = Inr fs'"
  shows "combine_ts_run src out fs =
           ([Log (msg_searching src), Readdir src, Log (msg_found (length (files allFiles)))]
              @ concat (map (\<lambda>f. [Log (msg_combining (fullPath f)), Read (fullPath f)]) (files allFiles))
              @ [Write out (spec_document (mixed_blocks fs (files allFiles))), Log (msg_success out)],
            fs', None)"
  using assms(1-4,6)
  by (simp add: combine_ts_run_def combine_ts_loop_ok [OF assms(5)] spec_document_unfold)

lemma part_000_run_not_found:
  "\<not> fs_exists fs src \<Longrightarrow>
   part_000_run src out fs =
     ([Log (msg_searching src)], fs, Some (Error (''Source directory not found: '' @ src)))"
  by (simp add: part_000_run_def)

lemma part_000_run_not_dir:
  "fs_exists fs src \<Longrightarrow> \<not> stat_isDirectory fs src \<Longrightarrow>
   part_000_run src out fs =
     ([Log (msg_searching src)], fs, Some (Error (''Source path is not a directory: '' @ src)))"
  by (simp add: part_000_run_def)


lemma part_000_run_no_files:
  "fs_exists fs src \<Longrightarrow> stat_isDirectory fs src \<Longrightarrow> readdir_strings fs src = Inr allFiles \<Longrightarrow>
   markdownFiles allFiles = [] \<Longrightarrow>
   part_000_run src out fs =
     ([Log (msg_searching src), Readdir src, Warn (msg_no_files src)], fs, None)"
  by (simp add: part_000_run_def)


lemma part_000_run_write_fails:
  assumes "fs_exists fs src" "stat_isDirectory fs src" "readdir_strings fs src = Inr allFiles"
    and "markdownFiles allFiles \<noteq> []"
    and "list_all (\<lambda>p. readable fs (join src p)) (markdownFiles allFiles)"
    and "bun_write fs out (spec_document (uniform_blocks fs src (markdownFiles allFiles))) = Inl e"
  shows "part_000_run src out fs =
           ([Log (msg_searching src), Readdir src, Log (msg_found (length (markdownFiles allFiles)))]
              @ concat (map (\<lambda>p. [Log (msg_combining p), Read (join src p)]) (markdownFiles allFiles))
              @ [Write out (spec_document (uniform_blocks fs src (markdownFiles allFiles)))],
            fs, Some e)"
  using assms(1-4,6)
  by (simp add: part_000_run_def part_000_loop_ok [OF assms(5)] spec_document_unfold)

lemma part_000_run_written:
  assumes "fs_exists fs src" "stat_isDirectory fs src" "readdir_strings fs src = Inr allFiles"
    and "markdownFiles allFiles \<noteq> []"
    and "list_all (\<lambda>p. readable fs (join src p)) (markdownFiles allFiles)"
    and "bun_write fs out (spec_document (uniform_blocks fs src (markdownFiles allFiles))) = Inr fs'"
  shows "part_000_run src out fs =
           ([Log (msg_searching src), Readdir src, Log (msg_found (length (markdownFiles allFiles)))]
              @ concat (map (\<lambda>p. [Log (msg_combining p), Read (join src p)]) (markdownFiles allFiles))
              @ [Write out (spec_document (uniform_blocks fs src (markdownFiles allFiles))),
                 Log (msg_success out)],
            fs', None)"
  using assms(1-4,6)
  by (simp add: part_000_run_def part_000_loop_ok [OF assms(5)] spec_document_unfold)



lemma finish_trace:
  "trace (finish (evs, fs', t)) = (case t of None \<Rightarrow> evs | Some e \<Rightarrow> evs @ [Err (msg_error e)])"
  by (simp add: finish_def split: option.splits)

lemma bun_write_lookup:
  assumes "bun_write fs p content = Inr fs'"
  shows "lookup fs' p = Some (File content)"
proof (cases "lookup fs p")
  case None
  have "p \<notin> set (ancestors p)"
  proof
    assume "p \<in> set (ancestors p)"
    then obtain i where "p = take i p" "i < length p" by (auto simp: ancestors_def)
    then have "length p = min (length p) i" by (metis length_take)
    with \<open>i < length p\<close> show False by simp
  qed
  then have "map_of (map (\<lambda>a. (a, Dir)) (filter (\<lambda>a. \<not> fs_exists fs a) (ancestors p))) p = None"
    by (simp add: map_of_eq_None_iff image_iff)
  with None assms show ?thesis
    by (auto simp: bun_write_def lookup_def map_add_def split: if_splits)
next
  case (Some n)
  have *: "map_of xs p \<noteq> None \<Longrightarrow> map_of (map (\<lambda>e. if fst e = p then (p, v) else e) xs) p = Some v" for xs v
    by (induction xs) auto
  from Some assms show ?thesis
    by (cases n) (auto simp: bun_write_def lookup_def * split: if_splits)
qed

subsection \<open>Source validation\<close>

lemma not_found_not_dir_distinct:
  "msg_error (Error (''Source directory not found: '' @ p)) \<noteq>
   msg_error (Error (''Source path is not a directory: '' @ q))"
  by (simp add: msg_error_def)

lemma combine_ts_run_Readdir:
  "Readdir p \<in> set (fst (combine_ts_run src out fs)) \<Longrightarrow> fs_exists fs src \<and> stat_isDirectory fs src"
  by (cases "fs_exists fs src"; cases "stat_isDirectory fs src")
     (auto simp: combine_ts_run_not_found combine_ts_run_not_dir)

lemma part_000_run_Readdir:
  "Readdir p \<in> set (fst (part_000_run src out fs)) \<Longrightarrow> fs_exists fs src \<and> stat_isDirectory fs src"
  by (cases "fs_exists fs src"; cases "stat_isDirectory fs src")
     (auto simp: part_000_run_not_found part_000_run_not_dir)

lemma trace_finish_Readdir:
  "Readdir p \<in> set (trace (finish r)) \<longleftrightarrow> Readdir p \<in> set (fst r)"
  by (cases r) (auto simp: finish_def split: option.splits)

text \<open>
  Claim C5. Before it walks anything, either variant checks that the resolved source path
  exists and is a directory. A path that does not exist ends the run with exit code 1 and the
  message \<^verbatim>\<open>Source directory not found: ...\<close>; a path that exists and is no directory ends
  it with exit code 1 and the different message \<^verbatim>\<open>Source path is not a directory: ...\<close>.
  In both cases the file system is left as it was (no output file is created or overwritten),
  and \<^verbatim>\<open>readdir\<close> is called only on a source that passed both checks.
\<close>

theorem source_validation:
  fixes args :: "string list" and cwd :: string and fs :: filesystem
  defines "src \<equiv> sourcePath_of args cwd"
  defines "not_found \<equiv> Error (''Source directory not found: '' @ src)"
  defines "not_a_directory \<equiv> Error (''Source path is not a directory: '' @ src)"
  shows
    "(\<not> fs_exists fs src \<longrightarrow>
        combine_ts_main args cwd fs =
          \<lparr>exit_code = 1, trace = [Log (msg_searching src), Err (msg_error not_found)], fs_after = fs\<rparr> \<and>
        part_000_main args cwd fs =
          \<lparr>exit_code = 1, trace = [Log (msg_searching src), Err (msg_error not_found)], fs_after = fs\<rparr>) \<and>
     (fs_exists fs src \<and> \<not> stat_isDirectory fs src \<longrightarrow>
        combine_ts_main args cwd fs =
          \<lparr>exit_code = 1, trace = [Log (msg_searching src), Err (msg_error not_a_directory)],
           fs_after = fs\<rparr> \<and>
        part_000_main args cwd fs =
          \<lparr>exit_code = 1, trace = [Log (msg_searching src), Err (msg_error not_a_directory)],
           fs_after = fs\<rparr>) \<and>
     msg_error not_found \<noteq> msg_error not_a_directory \<and>
     (Readdir src \<in> set (trace (combine_ts_main args cwd fs)) \<or>
      Readdir src \<in> set (trace (part_000_main args cwd fs)) \<longrightarrow>
        fs_exists fs src \<and> stat_isDirectory fs src)"
proof -
  have 1: "\<not> fs_exists fs src \<longrightarrow>
        combine_ts_main args cwd fs =
          \<lparr>exit_code = 1, trace = [Log (msg_searching src), Err (msg_error not_found)], fs_after = fs\<rparr> \<and>
        part_000_main args cwd fs =
          \<lparr>exit_code = 1, trace = [Log (msg_searching src), Err (msg_error not_found)], fs_after = fs\<rparr>"
    by (simp add: combine_ts_main_def part_000_main_def src_def [symmetric] not_found_def
        combine_ts_run_not_found part_000_run_not_found finish_def)
  have 2: "fs_exists fs src \<and> \<not> stat_isDirectory fs src \<longrightarrow>
        combine_ts_main args cwd fs =
          \<lparr>exit_code = 1, trace = [Log (msg_searching src), Err (msg_error not_a_directory)],
           fs_after = fs\<rparr> \<and>
        part_000_main args cwd fs =
          \<lparr>exit_code = 1, trace = [Log (msg_searching src), Err (msg_error not_a_directory)],
           fs_after = fs\<rparr>"
    by (simp add: combine_ts_main_def part_000_main_def src_def [symmetric] not_a_directory_def
        combine_ts_run_not_dir part_000_run_not_dir finish_def)
  have 3: "msg_error not_found \<noteq> msg_error not_a_directory"
    unfolding not_found_def not_a_directory_def by (rule not_found_not_dir_distinct)
  have 4: "Readdir src \<in> set (trace (combine_ts_main args cwd fs)) \<or>
      Readdir src \<in> set (trace (part_000_main args cwd fs)) \<longrightarrow>
        fs_exists fs src \<and> stat_isDirectory fs src"
    unfolding combine_ts_main_def part_000_main_def src_def [symmetric] trace_finish_Readdir
    using combine_ts_run_Readdir part_000_run_Readdir by blast
  from 1 2 3 4 show ?thesis by blast
qed


theorem source_validation_witness:
  "\<not> fs_exists example_tree (sourcePath_of [''bun'', ''combine.ts'', ''--src'', ''nowhere''] ''/w'') \<and>
   exit_code (combine_ts_main [''bun'', ''combine.ts'', ''--src'', ''nowhere''] ''/w'' example_tree) = 1 \<and>
   fs_after (part_000_main [''bun'', ''combine.ts'', ''--src'', ''nowhere''] ''/w'' example_tree) = example_tree \<and>
   fs_exists example_tree (sourcePath_of [''bun'', ''combine.ts'', ''--src'', ''a.md''] ''/w'') \<and>
   \<not> stat_isDirectory example_tree (sourcePath_of [''bun'', ''combine.ts'', ''--src'', ''a.md''] ''/w'') \<and>
   trace (combine_ts_main [''bun'', ''combine.ts'', ''--src'', ''a.md''] ''/w'' example_tree) =
     [Log (msg_searching ''/w/a.md''),
      Err (msg_error (Error ''Source path is not a directory: /w/a.md''))] \<and>
   Readdir ''/w'' \<in> set (trace (combine_ts_main [''bun'', ''combine.ts''] ''/w'' example_tree)) \<and>
   stat_isDirectory example_tree ''/w''"
proof -
  let ?A = "[''bun'', ''combine.ts'', ''--src'', ''nowhere'']"
  let ?B = "[''bun'', ''combine.ts'', ''--src'', ''a.md'']"
  let ?C = "[''bun'', ''combine.ts'']"
  have a: "\<not> fs_exists example_tree (sourcePath_of ?A ''/w'')" by code_simp
  have b: "fs_exists example_tree (sourcePath_of ?B ''/w'') \<and>
    \<not> stat_isDirectory example_tree (sourcePath_of ?B ''/w'')" by code_simp
  have sb: "sourcePath_of ?B ''/w'' = ''/w/a.md''" by code_simp
  have sc: "sourcePath_of ?C ''/w'' = ''/w''" by code_simp
  have c: "Readdir ''/w'' \<in> set (trace (combine_ts_main ?C ''/w'' example_tree))" by code_simp
  note A = source_validation [of example_tree ?A "''/w''"]
  note B = source_validation [of example_tree ?B "''/w''"]
  note C = source_validation [of example_tree ?C "''/w''", unfolded sc]
  from A a have "combine_ts_main ?A ''/w'' example_tree =
          \<lparr>exit_code = 1, trace = [Log (msg_searching (sourcePath_of ?A ''/w'')),
             Err (msg_error (Error (''Source directory not found: '' @ sourcePath_of ?A ''/w'')))],
           fs_after = example_tree\<rparr>"
    by blast
  then have 1: "exit_code (combine_ts_main ?A ''/w'' example_tree) = 1" by simp
  from A a have "part_000_main ?A ''/w'' example_tree =
          \<lparr>exit_code = 1, trace = [Log (msg_searching (sourcePath_of ?A ''/w'')),
             Err (msg_error (Error (''Source directory not found: '' @ sourcePath_of ?A ''/w'')))],
           fs_after = example_tree\<rparr>"
    by blast
  then have 2: "fs_after (part_000_main ?A ''/w'' example_tree) = example_tree" by simp
  from B b have "combine_ts_main ?B ''/w'' example_tree =
          \<lparr>exit_code = 1, trace = [Log (msg_searching (sourcePath_of ?B ''/w'')),
             Err (msg_error (Error (''Source path is not a directory: '' @ sourcePath_of ?B ''/w'')))],
           fs_after = example_tree\<rparr>"
    by blast
  then have 3: "trace (combine_ts_main ?B ''/w'' example_tree) =
     [Log (msg_searching ''/w/a.md''),
      Err (msg_error (Error ''Source path is not a directory: /w/a.md''))]"
    by (simp add: sb)
  from C c have 4: "stat_isDirectory example_tree ''/w''" by blast
  from a b 1 2 3 4 c show ?thesis by blast
qed

subsection \<open>No candidate\<close>

text \<open>
  Claim C6. When the walk succeeds and the filtered candidate list is empty, either variant
  warns (\<^verbatim>\<open>No Markdown files found in ...\<close>), ends with exit code 0, and leaves the file
  system as it was: nothing is read and nothing is written.
\<close>

theorem no_candidates_is_success:
  fixes args :: "string list" and cwd :: string and fs :: filesystem
  defines "src \<equiv> sourcePath_of args cwd"
  defines "quiet \<equiv> \<lparr>exit_code = 0,
                     trace = [Log (msg_searching src), Readdir src, Warn (msg_no_files src)],
                     fs_after = fs\<rparr>"
  shows
    "(fs_exists fs src \<and> stat_isDirectory fs src \<and> readdir_withFileTypes fs src = Inr allFiles \<and>
      files allFiles = [] \<longrightarrow> combine_ts_main args cwd fs = quiet) \<and>
     (fs_exists fs src \<and> stat_isDirectory fs src \<and> readdir_strings fs src = Inr allPaths \<and>
      markdownFiles allPaths = [] \<longrightarrow> part_000_main args cwd fs = quiet)"
  by (simp add: combine_ts_main_def part_000_main_def src_def [symmetric] quiet_def
      combine_ts_run_no_files part_000_run_no_files finish_def)

theorem no_candidates_is_success_witness:
  "files [\<lparr>name = ''dist'', parentPath = ''/w'', kind = Directory\<rparr>,
          \<lparr>name = ''notes.md'', parentPath = ''/w/dist'', kind = RegularFile\<rparr>,
          \<lparr>name = ''yarn.lock'', parentPath = ''/w'', kind = RegularFile\<rparr>] = [] \<and>
   combine_ts_main [''bun'', ''combine.ts''] ''/w'' excluded_tree =
     \<lparr>exit_code = 0,
      trace = [Log (msg_searching ''/w''), Readdir ''/w'', Warn (msg_no_files ''/w'')],
      fs_after = excluded_tree\<rparr> \<and>
   markdownFiles [''b.txt''] = [] \<and>
   part_000_main [''bun'', ''combine.ts''] ''/w'' no_markdown_tree =
     \<lparr>exit_code = 0,
      trace = [Log (msg_searching ''/w''), Readdir ''/w'', Warn (msg_no_files ''/w'')],
      fs_after = no_markdown_tree\<rparr>"
proof -
  let ?A = "[''bun'', ''combine.ts'']"
  let ?L = "[\<lparr>name = ''dist'', parentPath = ''/w'', kind = Directory\<rparr>,
          \<lparr>name = ''notes.md'', parentPath = ''/w/dist'', kind = RegularFile\<rparr>,
          \<lparr>name = ''yarn.lock'', parentPath = ''/w'', kind = RegularFile\<rparr>]"
  have s: "sourcePath_of ?A ''/w'' = ''/w''" by code_simp
  have a: "fs_exists excluded_tree ''/w'' \<and> stat_isDirectory excluded_tree ''/w'' \<and>
    readdir_withFileTypes excluded_tree ''/w'' = Inr ?L \<and> files ?L = []"
    by code_simp
  have b: "fs_exists no_markdown_tree ''/w'' \<and> stat_isDirectory no_markdown_tree ''/w'' \<and>
    readdir_strings no_markdown_tree ''/w'' = Inr [''b.txt''] \<and> markdownFiles [''b.txt''] = []"
    by code_simp
  from no_candidates_is_success [of excluded_tree ?A "''/w''" ?L, unfolded s] a
  have 1: "combine_ts_main ?A ''/w'' excluded_tree =
     \<lparr>exit_code = 0,
      trace = [Log (msg_searching ''/w''), Readdir ''/w'', Warn (msg_no_files ''/w'')],
      fs_after = excluded_tree\<rparr>"
    by blast
  from no_candidates_is_success [of no_markdown_tree ?A "''/w''" _ "[''b.txt'']", unfolded s] b
  have 2: "part_000_main ?A ''/w'' no_markdown_tree =
     \<lparr>exit_code = 0,
      trace = [Log (msg_searching ''/w''), Readdir ''/w'', Warn (msg_no_files ''/w'')],
      fs_after = no_markdown_tree\<rparr>"
    by blast
  from a b 1 2 show ?thesis by blast
qed



subsection \<open>Errors\<close>






lemma is_Write_simps:
  "is_Write (Write p d)" "\<not> is_Write (Log a)" "\<not> is_Write (Warn a)" "\<not> is_Write (Err a)"
  "\<not> is_Write (Readdir a)" "\<not> is_Write (Read a)"
  by (simp_all add: is_Write_def)

subsection \<open>The combined document\<close>

text \<open>
  Claim C1, as amended. Whenever the candidate list is not empty and every candidate can be
  read, the run calls \<^verbatim>\<open>Bun.write\<close> exactly once, with the resolved output path and the
  combined document: the title line, then for each candidate in order the separator block
  \<^verbatim>\<open>\n---\n## Source: <path>\n---\n\<close> and the content emitted for the file, all joined by
  newlines. The content emitted is the full text of the file in \<^verbatim>\<open>part_000\<close>; in
  \<^verbatim>\<open>combine.ts\<close> it is the full text for a name that ends in \<^verbatim>\<open>.md\<close> and the text inside
  a fenced block for any other name. When the write succeeds the run ends with exit code 0
  and the output path holds exactly this document.
\<close>

theorem combined_document_written:
  fixes args :: "string list" and cwd :: string and fs :: filesystem
  defines "src \<equiv> sourcePath_of args cwd" and "out \<equiv> outputPath_of args cwd"
  shows
    "(fs_exists fs src \<and> stat_isDirectory fs src \<and> readdir_withFileTypes fs src = Inr allFiles \<and>
      files allFiles \<noteq> [] \<and> list_all (\<lambda>f. readable fs (fullPath f)) (files allFiles) \<longrightarrow>
        filter is_Write (trace (combine_ts_main args cwd fs))
          = [Write out (spec_document (mixed_blocks fs (files allFiles)))] \<and>
        (\<forall>fs'. bun_write fs out (spec_document (mixed_blocks fs (files allFiles))) = Inr fs' \<longrightarrow>
           exit_code (combine_ts_main args cwd fs) = 0 \<and>
           fs_after (combine_ts_main args cwd fs) = fs' \<and>
           lookup fs' out = Some (File (spec_document (mixed_blocks fs (files allFiles)))))) \<and>
     (fs_exists fs src \<and> stat_isDirectory fs src \<and> readdir_strings fs src = Inr allPaths \<and>
      markdownFiles allPaths \<noteq> [] \<and>
      list_all (\<lambda>p. readable fs (join src p)) (markdownFiles allPaths) \<longrightarrow>
        filter is_Write (trace (part_000_main args cwd fs))
          = [Write out (spec_document (uniform_blocks fs src (markdownFiles allPaths)))] \<and>
        (\<forall>fs'. bun_write fs out (spec_document (uniform_blocks fs src (markdownFiles allPaths))) = Inr fs' \<longrightarrow>
           exit_code (part_000_main args cwd fs) = 0 \<and>
           fs_after (part_000_main args cwd fs) = fs' \<and>
           lookup fs' out = Some (File (spec_document (uniform_blocks fs src (markdownFiles allPaths))))))"
proof (intro conjI impI; elim conjE)
  assume h: "fs_exists fs src" "stat_isDirectory fs src" "readdir_withFileTypes fs src = Inr allFiles"
    "files allFiles \<noteq> []" "list_all (\<lambda>f. readable fs (fullPath f)) (files allFiles)"
  let ?doc = "spec_document (mixed_blocks fs (files allFiles))"
  show "filter is_Write (trace (combine_ts_main args cwd fs)) = [Write out ?doc]"
  proof (cases "bun_write fs out ?doc")
    case (Inl e)
    from combine_ts_run_write_fails [OF h Inl] show ?thesis
      unfolding combine_ts_main_def src_def [symmetric] out_def [symmetric]
      by (simp add: finish_trace is_Write_simps reads_no_write)
  next
    case (Inr fs')
    from combine_ts_run_written [OF h Inr] show ?thesis
      unfolding combine_ts_main_def src_def [symmetric] out_def [symmetric]
      by (simp add: finish_trace is_Write_simps reads_no_write)
  qed
  show "\<forall>fs'. bun_write fs out ?doc = Inr fs' \<longrightarrow>
           exit_code (combine_ts_main args cwd fs) = 0 \<and>
           fs_after (combine_ts_main args cwd fs) = fs' \<and> lookup fs' out = Some (File ?doc)"
  proof (intro allI impI)
    fix fs' assume w: "bun_write fs out ?doc = Inr fs'"
    from combine_ts_run_written [OF h w] bun_write_lookup [OF w]
    show "exit_code (combine_ts_main args cwd fs) = 0 \<and>
           fs_after (combine_ts_main args cwd fs) = fs' \<and> lookup fs' out = Some (File ?doc)"
      unfolding combine_ts_main_def src_def [symmetric] out_def [symmetric]
      by (simp add: finish_def)
  qed
next
  assume h: "fs_exists fs src" "stat_isDirectory fs src" "readdir_strings fs src = Inr allPaths"
    "markdownFiles allPaths \<noteq> []" "list_all (\<lambda>p. readable fs (join src p)) (markdownFiles allPaths)"
  let ?doc = "spec_document (uniform_blocks fs src (markdownFiles allPaths))"
  show "filter is_Write (trace (part_000_main args cwd fs)) = [Write out ?doc]"
  proof (cases "bun_write fs out ?doc")
    case (Inl e)
    from part_000_run_write_fails [OF h Inl] show ?thesis
      unfolding part_000_main_def src_def [symmetric] out_def [symmetric]
      by (simp add: finish_trace is_Write_simps reads_no_write)
  next
    case (Inr fs')
    from part_000_run_written [OF h Inr] show ?thesis
      unfolding part_000_main_def src_def [symmetric] out_def [symmetric]
      by (simp add: finish_trace is_Write_simps reads_no_write)
  qed
  show "\<forall>fs'. bun_write fs out ?doc = Inr fs' \<longrightarrow>
           exit_code (part_000_main args cwd fs) = 0 \<and>
           fs_after (part_000_main args cwd fs) = fs' \<and> lookup fs' out = Some (File ?doc)"
  proof (intro allI impI)
    fix fs' assume w: "bun_write fs out ?doc = Inr fs'"
    from part_000_run_written [OF h w] bun_write_lookup [OF w]
    show "exit_code (part_000_main args cwd fs) = 0 \<and>
           fs_after (part_000_main args cwd fs) = fs' \<and> lookup fs' out = Some (File ?doc)"
      unfolding part_000_main_def src_def [symmetric] out_def [symmetric]
      by (simp add: finish_def)
  qed
qed

theorem combined_document_written_witness:
  "files [\<lparr>name = ''z.md'', parentPath = ''/w'', kind = RegularFile\<rparr>,
          \<lparr>name = ''a.md'', parentPath = ''/w'', kind = RegularFile\<rparr>,
          \<lparr>name = ''b.txt'', parentPath = ''/w'', kind = RegularFile\<rparr>] \<noteq> [] \<and>
   filter is_Write (trace (combine_ts_main [''bun'', ''combine.ts''] ''/w'' example_tree)) =
     [Write ''/w/combined.md''
        (spec_document (mixed_blocks example_tree
           (files [\<lparr>name = ''z.md'', parentPath = ''/w'', kind = RegularFile\<rparr>,
                   \<lparr>name = ''a.md'', parentPath = ''/w'', kind = RegularFile\<rparr>,
                   \<lparr>name = ''b.txt'', parentPath = ''/w'', kind = RegularFile\<rparr>])))] \<and>
   exit_code (combine_ts_main [''bun'', ''combine.ts''] ''/w'' example_tree) = 0 \<and>
   lookup (fs_after (combine_ts_main [''bun'', ''combine.ts''] ''/w'' example_tree)) ''/w/combined.md'' =
     Some (File (spec_document (mixed_blocks example_tree
           (files [\<lparr>name = ''z.md'', parentPath = ''/w'', kind = RegularFile\<rparr>,
                   \<lparr>name = ''a.md'', parentPath = ''/w'', kind = RegularFile\<rparr>,
                   \<lparr>name = ''b.txt'', parentPath = ''/w'', kind = RegularFile\<rparr>])))) \<and>
   markdownFiles [''z.md'', ''a.md'', ''b.txt''] = [''a.md'', ''z.md''] \<and>
   filter is_Write (trace (part_000_main [''bun'', ''combine.ts''] ''/w'' example_tree)) =
     [Write ''/w/combined.md'' (spec_document (uniform_blocks example_tree ''/w'' [''a.md'', ''z.md'']))] \<and>
   exit_code (part_000_main [''bun'', ''combine.ts''] ''/w'' example_tree) = 0 \<and>
   lookup (fs_after (part_000_main [''bun'', ''combine.ts''] ''/w'' example_tree)) ''/w/combined.md'' =
     Some (File (spec_document (uniform_blocks example_tree ''/w'' [''a.md'', ''z.md''])))"
proof -
  let ?A = "[''bun'', ''combine.ts'']"
  let ?L = "[\<lparr>name = ''z.md'', parentPath = ''/w'', kind = RegularFile\<rparr>,
             \<lparr>name = ''a.md'', parentPath = ''/w'', kind = RegularFile\<rparr>,
             \<lparr>name = ''b.txt'', parentPath = ''/w'', kind = RegularFile\<rparr>]"
  let ?P = "[''z.md'', ''a.md'', ''b.txt'']"
  let ?D = "spec_document (mixed_blocks example_tree (files ?L))"
  let ?U = "spec_document (uniform_blocks example_tree ''/w'' (markdownFiles ?P))"
  have s: "sourcePath_of ?A ''/w'' = ''/w''" and out: "outputPath_of ?A ''/w'' = ''/w/combined.md''"
    and m: "markdownFiles ?P = [''a.md'', ''z.md'']"
    by code_simp+
  note T = combined_document_written [where args = ?A and cwd = "''/w''" and fs = example_tree
      and allFiles = ?L and allPaths = ?P, unfolded s out]
  have h: "fs_exists example_tree ''/w'' \<and> stat_isDirectory example_tree ''/w'' \<and>
      readdir_withFileTypes example_tree ''/w'' = Inr ?L \<and> files ?L \<noteq> [] \<and>
      list_all (\<lambda>f. readable example_tree (fullPath f)) (files ?L)"
    by code_simp
  have h': "fs_exists example_tree ''/w'' \<and> stat_isDirectory example_tree ''/w'' \<and>
      readdir_strings example_tree ''/w'' = Inr ?P \<and> markdownFiles ?P \<noteq> [] \<and>
      list_all (\<lambda>p. readable example_tree (join ''/w'' p)) (markdownFiles ?P)"
    by code_simp
  have "\<not> isl (bun_write example_tree ''/w/combined.md'' ?D)" by code_simp
  then obtain fs1 where w: "bun_write example_tree ''/w/combined.md'' ?D = Inr fs1"
    by (cases "bun_write example_tree ''/w/combined.md'' ?D") simp_all
  have "\<not> isl (bun_write example_tree ''/w/combined.md'' ?U)" by code_simp
  then obtain fs2 where w': "bun_write example_tree ''/w/combined.md'' ?U = Inr fs2"
    by (cases "bun_write example_tree ''/w/combined.md'' ?U") simp_all
  from T h have 1: "filter is_Write (trace (combine_ts_main ?A ''/w'' example_tree)) =
     [Write ''/w/combined.md'' ?D]" by blast
  from T h w have 2: "exit_code (combine_ts_main ?A ''/w'' example_tree) = 0 \<and>
     fs_after (combine_ts_main ?A ''/w'' example_tree) = fs1 \<and>
     lookup fs1 ''/w/combined.md'' = Some (File ?D)" by blast
  from T h' have 3: "filter is_Write (trace (part_000_main ?A ''/w'' example_tree)) =
     [Write ''/w/combined.md'' ?U]" by blast
  from T h' w' have 4: "exit_code (part_000_main ?A ''/w'' example_tree) = 0 \<and>
     fs_after (part_000_main ?A ''/w'' example_tree) = fs2 \<and>
     lookup fs2 ''/w/combined.md'' = Some (File ?U)" by blast
  from h 1 2 3 4 m show ?thesis by simp
qed

text \<open>
  The claim as stated (the full text content after every separator) fails in
  \<^verbatim>\<open>combine.ts\<close> as soon as a candidate's name does not end in \<^verbatim>\<open>.md\<close>: for the sample
  directory, whose file \<^verbatim>\<open>b.txt\<close> is a candidate, the document written is not the one with
  the raw contents.
\<close>

theorem raw_document_counterexample:
  "files [\<lparr>name = ''z.md'', parentPath = ''/w'', kind = RegularFile\<rparr>,
          \<lparr>name = ''a.md'', parentPath = ''/w'', kind = RegularFile\<rparr>,
          \<lparr>name = ''b.txt'', parentPath = ''/w'', kind = RegularFile\<rparr>] \<noteq> [] \<and>
   readdir_withFileTypes example_tree ''/w'' =
     Inr [\<lparr>name = ''z.md'', parentPath = ''/w'', kind = RegularFile\<rparr>,
          \<lparr>name = ''a.md'', parentPath = ''/w'', kind = RegularFile\<rparr>,
          \<lparr>name = ''b.txt'', parentPath = ''/w'', kind = RegularFile\<rparr>] \<and>
   exit_code (combine_ts_main [''bun'', ''combine.ts''] ''/w'' example_tree) = 0 \<and>
   lookup (fs_after (combine_ts_main [''bun'', ''combine.ts''] ''/w'' example_tree)) ''/w/combined.md'' \<noteq>
     Some (File (spec_document (raw_blocks example_tree
           (files [\<lparr>name = ''z.md'', parentPath = ''/w'', kind = RegularFile\<rparr>,
                   \<lparr>name = ''a.md'', parentPath = ''/w'', kind = RegularFile\<rparr>,
                   \<lparr>name = ''b.txt'', parentPath = ''/w'', kind = RegularFile\<rparr>]))))"
  by code_simp

subsection \<open>The mixed-content policy\<close>




subsection \<open>The filter of \<^verbatim>\<open>combine.ts\<close>\<close>

lemma keep_iff:
  "keep file \<longleftrightarrow> \<not> (isExcludedFolder file \<or> isExcludedFile file \<or> \<not> isFile file)"
  by (simp add: keep_def)


lemma match_here_Once:
  "match_here (Once a # r) s \<longleftrightarrow> (\<exists>c t. s = c # t \<and> atom_accepts a c \<and> match_here r t)"
  by (cases s) auto

lemma match_here_Star_skip: "match_here r s \<Longrightarrow> match_here (Star a # r) s"
  by (cases s) auto

lemma match_here_Star_split:
  "match_here (Star a # r) s \<Longrightarrow> \<exists>p t. s = p @ t \<and> match_here r t"
proof (induction s)
  case Nil
  then show ?case by simp
next
  case (Cons c s)
  from Cons.prems have "match_here r (c # s) \<or> match_here (Star a # r) s" by auto
  then show ?case
  proof
    assume "match_here r (c # s)"
    then show ?thesis by (metis append_Nil)
  next
    assume "match_here (Star a # r) s"
    from Cons.IH [OF this] obtain p t where "s = p @ t" "match_here r t" by blast
    then show ?thesis by (metis append_Cons)
  qed
qed

lemma js_match_iff: "js_match s re \<longleftrightarrow> (\<exists>p t. s = p @ t \<and> match_here re t)"
proof (induction s)
  case Nil
  then show ?case by simp
next
  case (Cons c s)
  show ?case
  proof
    assume "js_match (c # s) re"
    then have "match_here re (c # s) \<or> js_match s re" by simp
    then show "\<exists>p t. c # s = p @ t \<and> match_here re t"
    proof
      assume "match_here re (c # s)"
      then show ?thesis by (metis append_Nil)
    next
      assume "js_match s re"
      with Cons.IH obtain p t where "s = p @ t" "match_here re t" by blast
      then show ?thesis by (metis append_Cons)
    qed
  next
    assume "\<exists>p t. c # s = p @ t \<and> match_here re t"
    then obtain p t where pt: "c # s = p @ t" "match_here re t" by blast
    show "js_match (c # s) re"
    proof (cases p)
      case Nil
      with pt have "match_here re (c # s)" by simp
      then show ?thesis by simp
    next
      case (Cons d p')
      with pt have "s = p' @ t" by simp
      with pt(2) Cons.IH have "js_match s re" by blast
      then show ?thesis by simp
    qed
  qed
qed

lemma log_pattern:
  "RegExp (js_replace ''*.log'' ''*'' ''.*'') =
     [Star AnyChar, Once AnyChar, Once (Lit CHR ''l''), Once (Lit CHR ''o''), Once (Lit CHR ''g'')]"
  by (simp add: re_atom_of_def)

text \<open>
  What the program's reading of \<^verbatim>\<open>*.log\<close> excludes: every name in which \<^verbatim>\<open>log\<close> stands
  after at least one character (that is no line terminator), wherever in the name.
\<close>

lemma star_log_matches:
  "js_match n (RegExp (js_replace ''*.log'' ''*'' ''.*'')) \<longleftrightarrow>
     (\<exists>pre c post. n = pre @ c # ''log'' @ post \<and> c \<noteq> CHR 0x0A \<and> c \<noteq> CHR 0x0D)"
proof
  assume "js_match n (RegExp (js_replace ''*.log'' ''*'' ''.*''))"
  then obtain p t where n: "n = p @ t"
    and "match_here [Star AnyChar, Once AnyChar, Once (Lit CHR ''l''), Once (Lit CHR ''o''),
                     Once (Lit CHR ''g'')] t"
    unfolding log_pattern js_match_iff by blast
  from match_here_Star_split [OF this(2)] obtain p2 t2 where t: "t = p2 @ t2"
    and "match_here [Once AnyChar, Once (Lit CHR ''l''), Once (Lit CHR ''o''), Once (Lit CHR ''g'')] t2"
    by blast
  then obtain c post where "t2 = c # ''log'' @ post" "c \<noteq> CHR 0x0A" "c \<noteq> CHR 0x0D"
    by (auto simp: match_here_Once)
  with n t have "n = (p @ p2) @ c # ''log'' @ post" by simp
  with \<open>c \<noteq> CHR 0x0A\<close> \<open>c \<noteq> CHR 0x0D\<close>
  show "\<exists>pre c post. n = pre @ c # ''log'' @ post \<and> c \<noteq> CHR 0x0A \<and> c \<noteq> CHR 0x0D"
    by blast
next
  assume "\<exists>pre c post. n = pre @ c # ''log'' @ post \<and> c \<noteq> CHR 0x0A \<and> c \<noteq> CHR 0x0D"
  then obtain pre c post where n: "n = pre @ c # ''log'' @ post" and c: "c \<noteq> CHR 0x0A" "c \<noteq> CHR 0x0D"
    by blast
  from c have "match_here [Once AnyChar, Once (Lit CHR ''l''), Once (Lit CHR ''o''), Once (Lit CHR ''g'')]
      (c # ''log'' @ post)"
    by simp
  then have "match_here [Star AnyChar, Once AnyChar, Once (Lit CHR ''l''), Once (Lit CHR ''o''),
                     Once (Lit CHR ''g'')] (c # ''log'' @ post)"
    by (rule match_here_Star_skip)
  with n show "js_match n (RegExp (js_replace ''*.log'' ''*'' ''.*''))"
    unfolding log_pattern js_match_iff by blast
qed

text \<open>
  Claim C3. An entry is dropped by \<^verbatim>\<open>combine.ts\<close> when its parent path contains one of the
  folder names, when it is not a regular file, or when its name matches one of the patterns
  as the program reads them: as a regular expression without anchors in which \<^verbatim>\<open>.\<close> stands
  for any character. The regular file \<^verbatim>\<open>my.logbook.txt\<close>, whose name does not end in
  \<^verbatim>\<open>.log\<close> and matches none of the patterns read as globs, matches the expression built
  from \<^verbatim>\<open>*.log\<close> (\<open>star_log_matches\<close> says which names do): the program excludes it, and
  a directory that holds nothing else is reported as holding no files.
\<close>

theorem logbook_is_excluded:
  "\<not> endsWith ''my.logbook.txt'' ''.log'' \<and>
   \<not> glob_match ''*.log'' ''my.logbook.txt'' \<and>
   \<not> spec_excluded \<lparr>name = ''my.logbook.txt'', parentPath = ''/w'', kind = RegularFile\<rparr> \<and>
   RegExp (js_replace ''*.log'' ''*'' ''.*'') =
     [Star AnyChar, Once AnyChar, Once (Lit CHR ''l''), Once (Lit CHR ''o''), Once (Lit CHR ''g'')] \<and>
   js_match ''my.logbook.txt'' (RegExp (js_replace ''*.log'' ''*'' ''.*'')) \<and>
   isExcludedFile \<lparr>name = ''my.logbook.txt'', parentPath = ''/w'', kind = RegularFile\<rparr> \<and>
   \<not> keep \<lparr>name = ''my.logbook.txt'', parentPath = ''/w'', kind = RegularFile\<rparr> \<and>
   readdir_withFileTypes logbook_tree ''/w'' =
     Inr [\<lparr>name = ''my.logbook.txt'', parentPath = ''/w'', kind = RegularFile\<rparr>] \<and>
   combine_ts_main [''bun'', ''combine.ts''] ''/w'' logbook_tree =
     \<lparr>exit_code = 0,
      trace = [Log (msg_searching ''/w''), Readdir ''/w'', Warn (msg_no_files ''/w'')],
      fs_after = logbook_tree\<rparr>"
  by code_simp

subsection \<open>The order of the blocks\<close>

lemma markdownFiles_sorted: "sorted (markdownFiles allPaths)"
  by (simp add: markdownFiles_def js_sort_def)

lemma markdownFiles_set:
  "set (markdownFiles allPaths) =
     {p \<in> set allPaths. endsWith p ''.md'' \<or> endsWith p ''.mdx'' \<or> endsWith p ''.markdown''}"
  by (auto simp: markdownFiles_def js_sort_def)

text \<open>
  Claim C2. \<^verbatim>\<open>part_000\<close> sorts the relative paths as strings (\<open>markdownFiles_sorted\<close>).
  \<^verbatim>\<open>combine.ts\<close> calls the same \<^verbatim>\<open>sort()\<close> on directory entries, which all convert to
  the same string, so its candidates stay in the order of the listing (\<open>files_unsorted\<close>).
  For the sample directory, which holds \<^verbatim>\<open>a.md\<close>, \<^verbatim>\<open>b.txt\<close> and \<^verbatim>\<open>z.md\<close> and is listed
  with \<^verbatim>\<open>z.md\<close> first, none of the three files is excluded and the document of
  \<^verbatim>\<open>combine.ts\<close> has the blocks in the order \<^verbatim>\<open>z.md\<close>, \<^verbatim>\<open>a.md\<close>, \<^verbatim>\<open>b.txt\<close>, which is
  not sorted; \<^verbatim>\<open>part_000\<close> reads \<^verbatim>\<open>a.md\<close> before \<^verbatim>\<open>z.md\<close> on the same directory.
\<close>

theorem blocks_in_listing_order:
  "readdir_withFileTypes example_tree ''/w'' =
     Inr [\<lparr>name = ''z.md'', parentPath = ''/w'', kind = RegularFile\<rparr>,
          \<lparr>name = ''a.md'', parentPath = ''/w'', kind = RegularFile\<rparr>,
          \<lparr>name = ''b.txt'', parentPath = ''/w'', kind = RegularFile\<rparr>] \<and>
   files [\<lparr>name = ''z.md'', parentPath = ''/w'', kind = RegularFile\<rparr>,
          \<lparr>name = ''a.md'', parentPath = ''/w'', kind = RegularFile\<rparr>,
          \<lparr>name = ''b.txt'', parentPath = ''/w'', kind = RegularFile\<rparr>] =
     [\<lparr>name = ''z.md'', parentPath = ''/w'', kind = RegularFile\<rparr>,
      \<lparr>name = ''a.md'', parentPath = ''/w'', kind = RegularFile\<rparr>,
      \<lparr>name = ''b.txt'', parentPath = ''/w'', kind = RegularFile\<rparr>] \<and>
   filter is_Read (trace (combine_ts_main [''bun'', ''combine.ts''] ''/w'' example_tree)) =
     [Read ''/w/z.md'', Read ''/w/a.md'', Read ''/w/b.txt''] \<and>
   exit_code (combine_ts_main [''bun'', ''combine.ts''] ''/w'' example_tree) = 0 \<and>
   lookup (fs_after (combine_ts_main [''bun'', ''combine.ts''] ''/w'' example_tree)) ''/w/combined.md'' =
     Some (File (spec_document
       [(''/w/z.md'', ''Z''), (''/w/a.md'', ''A''), (''/w/b.txt'', fence ''B'')])) \<and>
   \<not> sorted [''/w/z.md'', ''/w/a.md'', ''/w/b.txt''] \<and>
   \<not> sorted [''z.md'', ''a.md'', ''b.txt''] \<and>
   filter is_Read (trace (part_000_main [''bun'', ''combine.ts''] ''/w'' example_tree)) =
     [Read ''/w/a.md'', Read ''/w/z.md'']"
  by code_simp

subsection \<open>The allowlist filter\<close>

lemma readdir_strings_lists_directories:
  assumes "readdir_strings fs src = Inr allPaths" and "(q, n) \<in> set (nodes fs)" and "under src q"
  shows "relative_to src q \<in> set allPaths"
proof -
  from assms(1) have "allPaths = map (\<lambda>e. relative_to src (fst e)) (filter (\<lambda>e. under src (fst e)) (nodes fs))"
    by (auto simp: readdir_strings_def readdir_recursive_def Let_def split: if_splits)
  with assms(2,3) show ?thesis by force
qed

lemma part_000_loop_reads:
  "list_all (\<lambda>p. readable fs (join src p)) pre \<Longrightarrow>
   Read (join src d) \<in> set (fst (part_000_loop fs src (pre @ d # post) acc))"
proof (induction pre arbitrary: acc)
  case Nil
  then show ?case by (simp add: Let_def split: sum.splits prod.splits)
next
  case (Cons p pre)
  from Cons.prems obtain t where t: "bun_file_text fs (join src p) = Inr t"
    by (auto simp: readable_def split: sum.splits)
  from Cons.prems have "list_all (\<lambda>p. readable fs (join src p)) pre" by simp
  from Cons.IH [OF this] t show ?case
    by (simp add: Let_def split: prod.splits) (metis fst_conv)
qed

lemma part_000_run_loop_events:
  assumes "fs_exists fs src" "stat_isDirectory fs src" "readdir_strings fs src = Inr allPaths"
    and "markdownFiles allPaths \<noteq> []"
  shows "set (fst (part_000_loop fs src (markdownFiles allPaths) [title]))
           \<subseteq> set (fst (part_000_run src out fs))"
  using assms by (auto simp: part_000_run_def split: sum.splits prod.splits)

lemma trace_finish_superset: "set (fst r) \<subseteq> set (trace (finish r))"
  by (cases r) (auto simp: finish_def split: option.splits)

text \<open>
  Claim C10. In \<^verbatim>\<open>part_000\<close> a relative path of the listing is a candidate exactly when
  the string ends in \<^verbatim>\<open>.md\<close>, \<^verbatim>\<open>.mdx\<close> or \<^verbatim>\<open>.markdown\<close>; what lies at the path plays no
  part. The listing holds directories as well as files, so a directory with such a name is a
  candidate, and once the candidates before it have been read the program calls
  \<^verbatim>\<open>Bun.file(...).text()\<close> on it.
\<close>

theorem allowlist_ignores_file_type:
  fixes args :: "string list" and cwd :: string and fs :: filesystem
  defines "src \<equiv> sourcePath_of args cwd"
  shows
    "set (markdownFiles allPaths) =
       {p \<in> set allPaths. endsWith p ''.md'' \<or> endsWith p ''.mdx'' \<or> endsWith p ''.markdown''} \<and>
     (readdir_strings fs src = Inr allPaths \<and> (q, Dir) \<in> set (nodes fs) \<and> under src q \<and>
      (endsWith (relative_to src q) ''.md'' \<or> endsWith (relative_to src q) ''.mdx'' \<or>
       endsWith (relative_to src q) ''.markdown'') \<longrightarrow>
        relative_to src q \<in> set (markdownFiles allPaths)) \<and>
     (fs_exists fs src \<and> stat_isDirectory fs src \<and> readdir_strings fs src = Inr allPaths \<and>
      markdownFiles allPaths = pre @ d # post \<and> list_all (\<lambda>p. readable fs (join src p)) pre \<longrightarrow>
        Read (join src d) \<in> set (trace (part_000_main args cwd fs)))"
proof (intro conjI impI; (elim conjE)?)
  show "set (markdownFiles allPaths) =
       {p \<in> set allPaths. endsWith p ''.md'' \<or> endsWith p ''.mdx'' \<or> endsWith p ''.markdown''}"
    by (rule markdownFiles_set)
next
  assume "readdir_strings fs src = Inr allPaths" "(q, Dir) \<in> set (nodes fs)" "under src q"
    and e: "endsWith (relative_to src q) ''.md'' \<or> endsWith (relative_to src q) ''.mdx'' \<or>
       endsWith (relative_to src q) ''.markdown''"
  then have "relative_to src q \<in> set allPaths"
    by (simp add: readdir_strings_lists_directories)
  with e show "relative_to src q \<in> set (markdownFiles allPaths)"
    by (simp add: markdownFiles_set)
next
  assume h: "fs_exists fs src" "stat_isDirectory fs src" "readdir_strings fs src = Inr allPaths"
    and m: "markdownFiles allPaths = pre @ d # post"
    and r: "list_all (\<lambda>p. readable fs (join src p)) pre"
  from m have ne: "markdownFiles allPaths \<noteq> []" by simp
  from part_000_loop_reads [OF r, of d post "[title]"] m
  have "Read (join src d) \<in> set (fst (part_000_loop fs src (markdownFiles allPaths) [title]))"
    by simp
  with part_000_run_loop_events [OF h ne, of "outputPath_of args cwd"]
  have "Read (join src d) \<in> set (fst (part_000_run src (outputPath_of args cwd) fs))"
    by blast
  with trace_finish_superset show "Read (join src d) \<in> set (trace (part_000_main args cwd fs))"
    unfolding part_000_main_def src_def [symmetric] by blast
qed

theorem allowlist_ignores_file_type_witness:
  "readdir_strings notes_tree ''/w'' = Inr [''a.md'', ''notes.md'', ''notes.md/x.txt''] \<and>
   markdownFiles [''a.md'', ''notes.md'', ''notes.md/x.txt''] = [''a.md'', ''notes.md''] \<and>
   (''/w/notes.md'', Dir) \<in> set (nodes notes_tree) \<and>
   relative_to ''/w'' ''/w/notes.md'' = ''notes.md'' \<and>
   ''notes.md'' \<in> set (markdownFiles [''a.md'', ''notes.md'', ''notes.md/x.txt'']) \<and>
   Read ''/w/notes.md'' \<in> set (trace (part_000_main [''bun'', ''combine.ts''] ''/w'' notes_tree)) \<and>
   exit_code (part_000_main [''bun'', ''combine.ts''] ''/w'' notes_tree) = 1"
proof -
  let ?A = "[''bun'', ''combine.ts'']"
  let ?P = "[''a.md'', ''notes.md'', ''notes.md/x.txt'']"
  have s: "sourcePath_of ?A ''/w'' = ''/w''" by code_simp
  have r: "relative_to ''/w'' ''/w/notes.md'' = ''notes.md''" and j: "join ''/w'' ''notes.md'' = ''/w/notes.md''"
    by code_simp+
  note T = allowlist_ignores_file_type [where args = ?A and cwd = "''/w''" and fs = notes_tree
      and allPaths = ?P, unfolded s]
  have h: "readdir_strings notes_tree ''/w'' = Inr ?P"
    "(''/w/notes.md'', Dir) \<in> set (nodes notes_tree)" "under ''/w'' ''/w/notes.md''"
    "endsWith (relative_to ''/w'' ''/w/notes.md'') ''.md''"
    "fs_exists notes_tree ''/w''" "stat_isDirectory notes_tree ''/w''"
    "markdownFiles ?P = [''a.md''] @ ''notes.md'' # []"
    "list_all (\<lambda>p. readable notes_tree (join ''/w'' p)) [''a.md'']"
    "exit_code (part_000_main ?A ''/w'' notes_tree) = 1"
    by code_simp+
  from T [where q = "''/w/notes.md''"] h(1-4)
  have 1: "relative_to ''/w'' ''/w/notes.md'' \<in> set (markdownFiles ?P)" by blast
  from T [where pre = "[''a.md'']" and d = "''notes.md''" and post = "[]"] h(1,5-8)
  have 2: "Read (join ''/w'' ''notes.md'') \<in> set (trace (part_000_main ?A ''/w'' notes_tree))"
    by blast
  from h(7) have m: "markdownFiles ?P = [''a.md'', ''notes.md'']" by simp
  from 1 2 h(1,2,9) m show ?thesis unfolding r j by blast
qed

subsection \<open>Paths in normal form\<close>















subsection \<open>What a write leaves in place\<close>













subsection \<open>Running the program again\<close>














end
